theory Spec2Isabelle
  imports Complex_Main "HOL-Library.Word"
begin

section \<open>The relational store\<close>

text \<open>
  The tables of \<^verbatim>\<open>setup-database.js\<close> that the request handlers of
  \<^verbatim>\<open>server.js\<close> read and write. A table is the list of its rows, in insertion
  order. Timestamps are natural numbers, \<^verbatim>\<open>NOW()\<close> is a parameter of every
  handler. A nullable column is an \<open>option\<close>. A key column (\<^verbatim>\<open>SERIAL\<close>,
  \<^verbatim>\<open>INT\<close>) holds a 32-bit integer, \<open>sint\<close> reads its value; a
  \<^verbatim>\<open>SERIAL\<close> column takes the next value of its sequence, and the store is
  taken not to have used its sequence up. The surrogate keys of the audit tables (never
  read by a handler) and the length limits of the \<^verbatim>\<open>VARCHAR\<close> columns are
  left out: strings are taken to fit their column. A string is the list of the code
  units of the JavaScript string, each below 256.
\<close>

type_synonym int4 = "32 word"

record pdf =
  pdf_id :: int4
  title :: string
  cluster :: int
  url :: string
  is_private :: bool
  uploader :: string
  confidence :: rat

record download_request =
  dr_id :: int4
  dr_pdf_id :: int4
  dr_username :: string
  dr_status :: "string option"
  dr_requested_at :: nat
  dr_responded_at :: "nat option"

record download_history_row =
  dh_pdf_id :: int4
  dh_username :: string
  dh_downloaded_at :: nat

record favorite =
  fav_username :: string
  fav_pdf_id :: int4

record recently_viewed_row =
  rv_username :: string
  rv_pdf_id :: int4
  rv_viewed_at :: nat

record upload_history_row =
  uh_title :: string
  uh_course :: int
  uh_uploaded_by :: string

record db =
  pdfs :: "pdf list"
  pdfs_seq :: int4
  download_requests :: "download_request list"
  download_requests_seq :: int4
  download_history :: "download_history_row list"
  favorites :: "favorite list"
  recently_viewed :: "recently_viewed_row list"
  upload_history :: "upload_history_row list"

text \<open>
  The foreign keys \<^verbatim>\<open>FOREIGN KEY (pdf_id) REFERENCES pdfs(id)\<close> of the four
  dependent tables: every referencing row names an existing document.
\<close>

definition pdf_exists :: "db \<Rightarrow> int4 \<Rightarrow> bool" where
  "pdf_exists d i = list_ex (\<lambda>p. pdf_id p = i) (pdfs d)"

definition fk_ok :: "db \<Rightarrow> bool" where
  "fk_ok d =
     (list_all (\<lambda>r. pdf_exists d (dr_pdf_id r)) (download_requests d) \<and>
      list_all (\<lambda>h. pdf_exists d (dh_pdf_id h)) (download_history d) \<and>
      list_all (\<lambda>f. pdf_exists d (fav_pdf_id f)) (favorites d) \<and>
      list_all (\<lambda>v. pdf_exists d (rv_pdf_id v)) (recently_viewed d))"

section \<open>What a handler answers\<close>

text \<open>
  A handler is modelled from the point where the middleware \<^verbatim>\<open>requireLogin\<close> (and
  \<^verbatim>\<open>isAdmin\<close> where the route has it) has let the request through: it takes the
  session's user name and the route's id, and returns the store it leaves and its
  answer. Each handler with a route id comes in two steps: the handler for an id that
  the store reads as an \<^verbatim>\<open>INT\<close> value, and around it the handler for the route
  parameter as it arrives, which the store may reject. A query that only reads
  succeeds once the store has read its parameters; an insert may be refused for reasons
  of the store's own, which the environment of the handler says. Of the JSON answer of
  an upload the record keeps the numbers themselves; their renderings by
  \<^verbatim>\<open>toFixed\<close> and the \<^verbatim>\<open>message\<close> text built from them are presentation
  and are left out.
\<close>

record upload_json =
  uj_title :: string
  uj_cluster :: int
  uj_cluster_name :: string
  uj_confidence :: rat
  uj_api_used :: bool
  uj_fallback :: "bool option"

record view_data =
  vd_file :: pdf
  vd_similar :: "(int4 \<times> string) list"
  vd_isFavorite :: bool
  vd_downloadRequest :: "download_request option"

text \<open>
  \<open>SendText\<close> is \<^verbatim>\<open>res.send\<close> of a plain message, \<open>Redirect\<close> and
  \<open>RedirectView i\<close> are \<^verbatim>\<open>res.redirect\<close> (the latter to \<^verbatim>\<open>'/view/' + i\<close>),
  \<open>SendFile disposition content_type body\<close> is the binary answer with its two
  headers, \<open>UploadSuccess\<close> is the JSON answer with \<^verbatim>\<open>success: true\<close> and
  \<open>UploadFailure m\<close> the one with \<^verbatim>\<open>success: false, message: m\<close>,
  \<open>StatusJson s\<close> is \<^verbatim>\<open>{ status: s }\<close>, and \<open>NoResponse\<close> is a handler
  whose query threw outside any \<^verbatim>\<open>try\<close>: it sends nothing.
\<close>

datatype response =
    SendText string
  | Redirect string
  | RedirectView int4
  | SendFile string string "nat list"
  | UploadSuccess upload_json
  | UploadFailure string
  | StatusJson "string option"
  | RenderView view_data
  | NoResponse

section \<open>The upload classification pipeline\<close>

text \<open>
  A fetch from object storage throws (\<open>NetworkError\<close>: the call itself or the
  reading of the body), or yields a response with its \<^verbatim>\<open>ok\<close> flag and its body.
  The classifier's answer to \<^verbatim>\<open>fetch(ML_API_URL, ...)\<close>: the call throws (timeout,
  connection refused), or it returns a status and a body. The body is not JSON, or JSON
  that is no object carrying the fields, or an object whose fields \<^verbatim>\<open>success\<close>,
  \<^verbatim>\<open>cluster\<close> and \<^verbatim>\<open>confidence\<close> are each absent (\<open>None\<close>) or a boolean,
  an integer and a (finite) number. JSON has no NaN and no infinity.
\<close>

record ml_result =
  ml_success :: "bool option"
  ml_cluster :: "int option"
  ml_confidence :: "rat option"

datatype json_body = MalformedJson | NotAnObject | JsonObject ml_result

datatype classifier_outcome =
    ClassifierUnreachable
  | ClassifierResponse nat json_body

datatype fetch_outcome = NetworkError | HttpResponse bool "nat list"

definition response_ok :: "nat \<Rightarrow> bool" where
  "response_ok st = (200 \<le> st \<and> st \<le> 299)"

definition default_ml_result :: ml_result where
  "default_ml_result =
     \<lparr>ml_success = Some False, ml_cluster = Some 0, ml_confidence = Some 0.78\<rparr>"

text \<open>
  Step 4 of the handler: \<open>None\<close> is a parsed body on which
  \<^verbatim>\<open>mlResult && ...\<close> is false or every field read is \<^verbatim>\<open>undefined\<close>.
\<close>

fun call_ml_api :: "classifier_outcome \<Rightarrow> ml_result option" where
  "call_ml_api ClassifierUnreachable = Some default_ml_result"
| "call_ml_api (ClassifierResponse st body) =
     (if response_ok st then
        (case body of
           MalformedJson \<Rightarrow> Some default_ml_result
         | NotAnObject \<Rightarrow> None
         | JsonObject r \<Rightarrow> Some r)
      else Some default_ml_result)"

text \<open>The JavaScript \<^verbatim>\<open>x || d\<close> on an optional number: \<^verbatim>\<open>undefined\<close> and 0 are falsy.\<close>

definition js_or :: "'a::zero option \<Rightarrow> 'a \<Rightarrow> 'a" where
  "js_or x d = (case x of None \<Rightarrow> d | Some v \<Rightarrow> if v = 0 then d else v)"

text \<open>Step 5: the prediction read off \<^verbatim>\<open>mlResult\<close>, before the clamp.\<close>

definition prediction :: "ml_result option \<Rightarrow> int \<times> rat" where
  "prediction m =
     (case m of
        None \<Rightarrow> (0, 0.5)
      | Some r \<Rightarrow>
          if ml_success r = Some True then (js_or (ml_cluster r) 0, js_or (ml_confidence r) 0.5)
          else (case ml_cluster r of
                  Some c \<Rightarrow> (c, js_or (ml_confidence r) 0.5)
                | None \<Rightarrow> (0, 0.5)))"

text \<open>Step 6: \<^verbatim>\<open>Math.max(0, Math.min(5, clusterIndex))\<close> and
  \<^verbatim>\<open>Math.max(0.1, Math.min(1.0, confidence))\<close>.\<close>

definition clamp :: "int \<times> rat \<Rightarrow> int \<times> rat" where
  "clamp cc = (max 0 (min 5 (fst cc)), max 0.1 (min 1.0 (snd cc)))"

definition clusterNames :: "string list" where
  "clusterNames = [''BSCS'', ''BSED-MATH'', ''BSES'', ''BSHM'', ''BTLED-HE'', ''BEED'']"

definition api_used :: "ml_result option \<Rightarrow> bool" where
  "api_used m = (case m of None \<Rightarrow> False | Some r \<Rightarrow> ml_success r = Some True)"

text \<open>
  The request: the submitted form's \<^verbatim>\<open>private\<close> field and the file multer stored
  (\<^verbatim>\<open>req.file.path\<close> is its URL in object storage). The environment: what each
  awaited call of this one request yields. \<^verbatim>\<open>path.parse(...).name\<close> is a library
  function, taken as \<open>parse_name\<close>.
\<close>

record uploaded_file =
  file_path :: string
  originalname :: string

record upload_request =
  form_private :: "string option"
  req_file :: "uploaded_file option"

record upload_env =
  parse_name :: "string \<Rightarrow> string"
  storage_fetch :: fetch_outcome
  classifier :: classifier_outcome
  insert_pdf_ok :: bool
  insert_upload_history_ok :: bool
  fallback_insert_ok :: bool

definition insert_pdf :: "db \<Rightarrow> string \<Rightarrow> int \<Rightarrow> string \<Rightarrow> bool \<Rightarrow> string \<Rightarrow> rat \<Rightarrow> db" where
  "insert_pdf d t c u p who conf =
     d\<lparr>pdfs := pdfs d @
          [\<lparr>pdf_id = pdfs_seq d, title = t, cluster = c, url = u, is_private = p,
            uploader = who, confidence = conf\<rparr>],
       pdfs_seq := pdfs_seq d + 1\<rparr>"

definition insert_upload_history :: "db \<Rightarrow> string \<Rightarrow> int \<Rightarrow> string \<Rightarrow> db" where
  "insert_upload_history d t c who =
     d\<lparr>upload_history := upload_history d @
          [\<lparr>uh_title = t, uh_course = c, uh_uploaded_by = who\<rparr>]\<rparr>"

text \<open>The \<^verbatim>\<open>catch (error)\<close> block of the handler: one more insert, with defaults.\<close>

definition upload_catch :: "upload_env \<Rightarrow> db \<Rightarrow> string \<Rightarrow> upload_request \<Rightarrow> db \<times> response" where
  "upload_catch env d user req =
     (let isPrivate = (form_private req = Some ''on'');
          filename = (case req_file req of
                        Some f \<Rightarrow> parse_name env (originalname f)
                      | None \<Rightarrow> ''unknown'');
          path = (case req_file req of Some f \<Rightarrow> file_path f | None \<Rightarrow> '''')
      in if fallback_insert_ok env then
           (insert_pdf d filename 0 path isPrivate user 0.5,
            UploadSuccess \<lparr>uj_title = filename, uj_cluster = 0, uj_cluster_name = ''BSCS'',
              uj_confidence = 0.5, uj_api_used = False, uj_fallback = Some True\<rparr>)
         else (d, UploadFailure ''Upload failed completely''))"

definition upload :: "upload_env \<Rightarrow> db \<Rightarrow> string \<Rightarrow> upload_request \<Rightarrow> db \<times> response" where
  "upload env d user req =
     (let isPrivate = (form_private req = Some ''on'') in
      case req_file req of
        None \<Rightarrow> (d, UploadFailure ''No file selected'')
      | Some f \<Rightarrow>
          if file_path f = '''' then (d, UploadFailure ''No file selected'')
          else
            let filename = parse_name env (originalname f) in
            (case storage_fetch env of
               NetworkError \<Rightarrow> upload_catch env d user req
             | HttpResponse ok pdfBuffer \<Rightarrow>
                 let mlResult = call_ml_api (classifier env);
                     (clusterIndex, conf) = clamp (prediction mlResult);
                     clusterName = clusterNames ! nat clusterIndex
                 in if \<not> insert_pdf_ok env then upload_catch env d user req
                    else
                      let d1 = insert_pdf d filename clusterIndex (file_path f) isPrivate user conf
                      in if \<not> insert_upload_history_ok env then upload_catch env d1 user req
                         else
                           (insert_upload_history d1 filename clusterIndex user,
                            UploadSuccess \<lparr>uj_title = filename, uj_cluster = clusterIndex,
                              uj_cluster_name = clusterName, uj_confidence = conf,
                              uj_api_used = api_used mlResult, uj_fallback = None\<rparr>)))"

section \<open>The download authorization workflow\<close>

text \<open>
  \<^verbatim>\<open>app.post('/request-download/:id')\<close>, for a route id that the store reads as
  the \<^verbatim>\<open>INT\<close> value \<open>i\<close>: the insert takes the column defaults
  (\<^verbatim>\<open>status\<close> 'pending', \<^verbatim>\<open>requested_at\<close> now, \<^verbatim>\<open>responded_at\<close> null);
  the store refuses it when the foreign key has no target, and the handler's
  \<^verbatim>\<open>catch\<close> answers for that.
\<close>

definition request_download :: "db \<Rightarrow> string \<Rightarrow> nat \<Rightarrow> int4 \<Rightarrow> db \<times> response" where
  "request_download d user now i =
     (if pdf_exists d i then
        (d\<lparr>download_requests := download_requests d @
             [\<lparr>dr_id = download_requests_seq d, dr_pdf_id = i, dr_username = user,
               dr_status = Some ''pending'', dr_requested_at = now, dr_responded_at = None\<rparr>],
           download_requests_seq := download_requests_seq d + 1\<rparr>,
         RedirectView i)
      else (d, SendText ''Request already sent''))"

text \<open>
  \<^verbatim>\<open>app.post('/admin/download-action/:id')\<close>, for a route id that the store
  reads as the \<^verbatim>\<open>INT\<close> value \<open>n\<close>: one \<^verbatim>\<open>UPDATE ... WHERE id=$2\<close>.
  The action is \<^verbatim>\<open>req.body.action\<close>, \<open>None\<close> when the form has no such field
  (the driver sends \<^verbatim>\<open>undefined\<close> as NULL).
\<close>

definition download_action :: "db \<Rightarrow> nat \<Rightarrow> string option \<Rightarrow> int4 \<Rightarrow> db \<times> response" where
  "download_action d now action n =
     (d\<lparr>download_requests :=
          map (\<lambda>r. if dr_id r = n then r\<lparr>dr_status := action, dr_responded_at := Some now\<rparr> else r)
              (download_requests d)\<rparr>,
      Redirect ''/admin/download-requests'')"

text \<open>
  The gate query of \<^verbatim>\<open>app.get('/download/:id')\<close>: the accepted requests of the pair,
  joined with their document.
\<close>

definition gate_rows :: "db \<Rightarrow> int4 \<Rightarrow> string \<Rightarrow> (download_request \<times> pdf) list" where
  "gate_rows d i user =
     [(dr, p). dr \<leftarrow> download_requests d, p \<leftarrow> pdfs d,
               pdf_id p = dr_pdf_id dr,
               dr_pdf_id dr = i \<and> dr_username dr = user \<and> dr_status dr = Some ''accepted'']"

record download_env =
  insert_download_history_ok :: bool
  fetch :: "string \<Rightarrow> fetch_outcome"

definition content_disposition :: "string \<Rightarrow> string" where
  "content_disposition t = ''attachment; filename='' @ [CHR 0x22] @ t @ ''.pdf'' @ [CHR 0x22]"

text \<open>
  \<^verbatim>\<open>res.setHeader\<close> throws on a value with a character other than a tab and
  the code units 0x20 to 0x7e and 0x80 to 0xff.
\<close>

definition header_char_ok :: "char \<Rightarrow> bool" where
  "header_char_ok c =
     (let n = (of_char c :: nat) in n = 0x09 \<or> (0x20 \<le> n \<and> n \<le> 0x7e) \<or> 0x80 \<le> n)"

definition header_value_ok :: "string \<Rightarrow> bool" where
  "header_value_ok v = list_all header_char_ok v"

text \<open>
  \<^verbatim>\<open>app.get('/download/:id')\<close>, for a route id that the store reads as the
  \<^verbatim>\<open>INT\<close> value \<open>i\<close>. Every throw inside the \<^verbatim>\<open>try\<close> ends in
  'Download failed'.
\<close>

definition download :: "download_env \<Rightarrow> db \<Rightarrow> string \<Rightarrow> nat \<Rightarrow> int4 \<Rightarrow> db \<times> response" where
  "download env d user now i =
     (case gate_rows d i user of
        [] \<Rightarrow> (d, SendText ''Not allowed'')
      | file # _ \<Rightarrow>
          if \<not> insert_download_history_ok env then (d, SendText ''Download failed'')
          else
            let d1 = d\<lparr>download_history := download_history d @
                        [\<lparr>dh_pdf_id = i, dh_username = user, dh_downloaded_at = now\<rparr>]\<rparr>
            in (case fetch env (url (snd file)) of
                  NetworkError \<Rightarrow> (d1, SendText ''Download failed'')
                | HttpResponse ok buffer \<Rightarrow>
                    if \<not> ok then (d1, SendText ''Failed to fetch file'')
                    else if \<not> header_value_ok (content_disposition (title (snd file)))
                    then (d1, SendText ''Download failed'')
                    else (d1, SendFile (content_disposition (title (snd file)))
                                ''application/pdf'' buffer)))"

text \<open>
  \<^verbatim>\<open>ORDER BY requested_at DESC LIMIT 1\<close>: a row with the greatest timestamp comes
  first. Which one of several rows with the same timestamp the store puts first is
  not fixed by SQL; the model takes one of them.
\<close>

definition order_by_requested_at_desc :: "download_request list \<Rightarrow> download_request list" where
  "order_by_requested_at_desc rs = rev (sort_key dr_requested_at rs)"

definition latest_request :: "db \<Rightarrow> string \<Rightarrow> int4 \<Rightarrow> download_request option" where
  "latest_request d user i =
     (case order_by_requested_at_desc
             (filter (\<lambda>r. dr_pdf_id r = i \<and> dr_username r = user) (download_requests d)) of
        [] \<Rightarrow> None
      | r # _ \<Rightarrow> Some r)"

text \<open>\<^verbatim>\<open>app.get('/request-status/:id')\<close>, for a route id that the store reads as
  the \<^verbatim>\<open>INT\<close> value \<open>i\<close>; it writes nothing.\<close>

definition request_status :: "db \<Rightarrow> string \<Rightarrow> int4 \<Rightarrow> response" where
  "request_status d user i =
     (case latest_request d user i of
        None \<Rightarrow> StatusJson None
      | Some r \<Rightarrow> StatusJson (dr_status r))"

text \<open>\<^verbatim>\<open>app.get('/view/:id')\<close>, for a logged-in user with the session's role and a
  route id that the store reads as the \<^verbatim>\<open>INT\<close> value \<open>i\<close>. Which five rows
  \<^verbatim>\<open>LIMIT 5\<close> keeps is not fixed by SQL; the model keeps the first five.\<close>

definition view :: "bool \<Rightarrow> db \<Rightarrow> string \<Rightarrow> string \<Rightarrow> nat \<Rightarrow> int4 \<Rightarrow> db \<times> response" where
  "view insert_recently_viewed_ok d user role now i =
     (case find (\<lambda>p. pdf_id p = i) (pdfs d) of
        None \<Rightarrow> (d, SendText ''File not found'')
      | Some file \<Rightarrow>
          if is_private file \<and> role \<noteq> ''admin'' then (d, SendText ''Access denied'')
          else if \<not> insert_recently_viewed_ok then (d, SendText ''Error loading file'')
          else
            let d1 = d\<lparr>recently_viewed := recently_viewed d @
                        [\<lparr>rv_username = user, rv_pdf_id = pdf_id file, rv_viewed_at = now\<rparr>]\<rparr>
            in (d1, RenderView
                  \<lparr>vd_file = file,
                   vd_similar = take 5 (map (\<lambda>p. (pdf_id p, title p))
                     (filter (\<lambda>p. cluster p = cluster file \<and> pdf_id p \<noteq> pdf_id file \<and> \<not> is_private p)
                        (pdfs d1))),
                   vd_isFavorite = list_ex (\<lambda>f. fav_username f = user \<and> fav_pdf_id f = pdf_id file)
                     (favorites d1),
                   vd_downloadRequest = latest_request d1 user (pdf_id file)\<rparr>))"

text \<open>
  \<^verbatim>\<open>app.post('/delete/:id')\<close>, for a route id that the store reads as the
  \<^verbatim>\<open>INT\<close> value \<open>i\<close>: \<^verbatim>\<open>DELETE FROM pdfs WHERE id=$1\<close>. The four
  dependent tables declare \<^verbatim>\<open>ON DELETE CASCADE\<close>: the rows that reference a deleted
  document go with it. \<^verbatim>\<open>upload_history\<close> has no such key.
\<close>

definition delete_pdf :: "db \<Rightarrow> int4 \<Rightarrow> db" where
  "delete_pdf d i =
     (if pdf_exists d i then
        d\<lparr>pdfs := filter (\<lambda>p. pdf_id p \<noteq> i) (pdfs d),
          download_requests := filter (\<lambda>r. dr_pdf_id r \<noteq> i) (download_requests d),
          download_history := filter (\<lambda>h. dh_pdf_id h \<noteq> i) (download_history d),
          favorites := filter (\<lambda>f. fav_pdf_id f \<noteq> i) (favorites d),
          recently_viewed := filter (\<lambda>v. rv_pdf_id v \<noteq> i) (recently_viewed d)\<rparr>
      else d)"

definition delete_handler :: "db \<Rightarrow> int4 \<Rightarrow> db \<times> response" where
  "delete_handler d i = (delete_pdf d i, Redirect ''/admin'')"

section \<open>The route parameter\<close>

text \<open>
  \<^verbatim>\<open>req.params.id\<close> is text, and the store reads it when it runs the query: it
  rejects text that is no integer, and an integer outside the range of \<^verbatim>\<open>INT\<close>.
  The rejected query throws. The handlers of \<^verbatim>\<open>/download/:id\<close>,
  \<^verbatim>\<open>/view/:id\<close> and \<^verbatim>\<open>/request-download/:id\<close> catch that and answer with
  their message for any error; those of \<^verbatim>\<open>/admin/download-action/:id\<close>,
  \<^verbatim>\<open>/request-status/:id\<close> and \<^verbatim>\<open>/delete/:id\<close> have no
  \<^verbatim>\<open>try\<close>, and send no answer. The store is left as it was.
\<close>

datatype route_param = NotAnInteger | Integer int

definition store_reads :: "route_param \<Rightarrow> int4 option" where
  "store_reads p =
     (case p of
        NotAnInteger \<Rightarrow> None
      | Integer n \<Rightarrow> if - (2 ^ 31) \<le> n \<and> n < 2 ^ 31 then Some (word_of_int n) else None)"

definition get_download :: "download_env \<Rightarrow> db \<Rightarrow> string \<Rightarrow> nat \<Rightarrow> route_param \<Rightarrow> db \<times> response" where
  "get_download env d user now p =
     (case store_reads p of
        None \<Rightarrow> (d, SendText ''Download failed'')
      | Some i \<Rightarrow> download env d user now i)"

definition get_view :: "bool \<Rightarrow> db \<Rightarrow> string \<Rightarrow> string \<Rightarrow> nat \<Rightarrow> route_param \<Rightarrow> db \<times> response" where
  "get_view insert_recently_viewed_ok d user role now p =
     (case store_reads p of
        None \<Rightarrow> (d, SendText ''Error loading file'')
      | Some i \<Rightarrow> view insert_recently_viewed_ok d user role now i)"

definition post_request_download :: "db \<Rightarrow> string \<Rightarrow> nat \<Rightarrow> route_param \<Rightarrow> db \<times> response" where
  "post_request_download d user now p =
     (case store_reads p of
        None \<Rightarrow> (d, SendText ''Request already sent'')
      | Some i \<Rightarrow> request_download d user now i)"

definition post_download_action :: "db \<Rightarrow> nat \<Rightarrow> string option \<Rightarrow> route_param \<Rightarrow> db \<times> response" where
  "post_download_action d now action p =
     (case store_reads p of
        None \<Rightarrow> (d, NoResponse)
      | Some n \<Rightarrow> download_action d now action n)"

definition get_request_status :: "db \<Rightarrow> string \<Rightarrow> route_param \<Rightarrow> response" where
  "get_request_status d user p =
     (case store_reads p of
        None \<Rightarrow> NoResponse
      | Some i \<Rightarrow> request_status d user i)"

definition post_delete :: "db \<Rightarrow> route_param \<Rightarrow> db \<times> response" where
  "post_delete d p =
     (case store_reads p of
        None \<Rightarrow> (d, NoResponse)
      | Some i \<Rightarrow> delete_handler d i)"

text \<open>The condition of the gate, as a property of the request log.\<close>

definition has_accepted :: "db \<Rightarrow> string \<Rightarrow> int4 \<Rightarrow> bool" where
  "has_accepted d user i =
     list_ex (\<lambda>r. dr_pdf_id r = i \<and> dr_username r = user \<and> dr_status r = Some ''accepted'')
       (download_requests d)"


text \<open>The download operation succeeds when it answers with the binary.\<close>

definition download_succeeds :: "response \<Rightarrow> bool" where
  "download_succeeds r = (case r of SendFile disposition content_type body \<Rightarrow> True | _ \<Rightarrow> False)"

text \<open>
  A sample store: a private document 42, for which ann has an accepted request and a
  later, rejected one; and two environments, with object storage answering or not.
\<close>

definition sample_pdf :: pdf where
  "sample_pdf = \<lparr>pdf_id = 42, title = ''Thesis'', cluster = 0, url = ''https://cdn/theses/42'',
     is_private = True, uploader = ''admin'', confidence = 0.9\<rparr>"

definition sample_db :: db where
  "sample_db =
     \<lparr>pdfs = [sample_pdf], pdfs_seq = 43,
      download_requests =
        [\<lparr>dr_id = 7, dr_pdf_id = 42, dr_username = ''ann'', dr_status = Some ''accepted'',
          dr_requested_at = 1, dr_responded_at = Some 2\<rparr>,
         \<lparr>dr_id = 8, dr_pdf_id = 42, dr_username = ''ann'', dr_status = Some ''rejected'',
          dr_requested_at = 3, dr_responded_at = Some 4\<rparr>],
      download_requests_seq = 9,
      download_history = [], favorites = [], recently_viewed = [], upload_history = []\<rparr>"

definition storage_up :: download_env where
  "storage_up = \<lparr>insert_download_history_ok = True, fetch = (\<lambda>u. HttpResponse True [37, 80, 68, 70])\<rparr>"

definition storage_down :: download_env where
  "storage_down = \<lparr>insert_download_history_ok = True, fetch = (\<lambda>u. HttpResponse False [])\<rparr>"


text \<open>The store right after \<^verbatim>\<open>setup-database.js\<close> has created the tables.\<close>

definition empty_db :: db where
  "empty_db =
     \<lparr>pdfs = [], pdfs_seq = 1, download_requests = [], download_requests_seq = 1,
      download_history = [], favorites = [], recently_viewed = [], upload_history = []\<rparr>"

text \<open>
  An upload whose classifier answers with a genuine prediction while the insert of the
  Document row fails and the insert of the \<^verbatim>\<open>catch\<close> block succeeds.
\<close>

definition writes_failing :: upload_env where
  "writes_failing =
     \<lparr>parse_name = (\<lambda>n. n), storage_fetch = HttpResponse True [37, 80, 68, 70],
      classifier = ClassifierResponse 200
        (JsonObject \<lparr>ml_success = Some True, ml_cluster = Some 3, ml_confidence = Some 0.9\<rparr>),
      insert_pdf_ok = False, insert_upload_history_ok = True, fallback_insert_ok = True\<rparr>"

definition sample_upload :: upload_request where
  "sample_upload =
     \<lparr>form_private = None,
      req_file = Some \<lparr>file_path = ''https://cdn/theses/a'', originalname = ''thesis''\<rparr>\<rparr>"





section \<open>Properties of the upload pipeline\<close>

lemma upload_main_path:
  assumes "req_file req = Some f" and "file_path f \<noteq> ''''"
    and "storage_fetch env = HttpResponse ok buf"
    and "insert_pdf_ok env" and "insert_upload_history_ok env"
  shows "upload env d user req =
     (let filename = parse_name env (originalname f);
          cc = clamp (prediction (call_ml_api (classifier env)))
      in (insert_upload_history
            (insert_pdf d filename (fst cc) (file_path f) (form_private req = Some ''on'') user (snd cc))
            filename (fst cc) user,
          UploadSuccess \<lparr>uj_title = filename, uj_cluster = fst cc,
            uj_cluster_name = clusterNames ! nat (fst cc), uj_confidence = snd cc,
            uj_api_used = api_used (call_ml_api (classifier env)), uj_fallback = None\<rparr>))"
  using assms by (simp add: upload_def Let_def case_prod_beta)



lemma pdfs_insert_upload_history [simp]:
  "pdfs (insert_upload_history d t c who) = pdfs d"
  by (simp add: insert_upload_history_def)

lemma pdfs_insert_pdf [simp]:
  "pdfs (insert_pdf d t c u p who conf) =
     pdfs d @ [\<lparr>pdf_id = pdfs_seq d, title = t, cluster = c, url = u, is_private = p,
                uploader = who, confidence = conf\<rparr>]"
  by (simp add: insert_pdf_def)

text \<open>
  C5: the clamp maps every (category, confidence) pair into [0, 5] and [0.1, 1.0], is
  the identity on a pair already in range, and applying it twice equals applying it
  once; the classifier output with category 9 and confidence 1.4 is persisted as
  category 5 and confidence 1.0.
\<close>

theorem clamp_range_identity_idempotent:
  "(0 \<le> fst (clamp cc) \<and> fst (clamp cc) \<le> 5 \<and> 0.1 \<le> snd (clamp cc) \<and> snd (clamp cc) \<le> 1.0) \<and>
   (0 \<le> c \<and> c \<le> 5 \<and> 0.1 \<le> k \<and> k \<le> 1.0 \<longrightarrow> clamp (c, k) = (c, k)) \<and>
   clamp (clamp cc) = clamp cc \<and>
   (req_file req = Some f \<and> file_path f \<noteq> '''' \<and> storage_fetch env = HttpResponse ok buf \<and>
    insert_pdf_ok env \<and> insert_upload_history_ok env \<and>
    classifier env = ClassifierResponse 200
      (JsonObject \<lparr>ml_success = s, ml_cluster = Some 9, ml_confidence = Some 1.4\<rparr>) \<longrightarrow>
    pdfs (fst (upload env d user req)) =
      pdfs d @ [\<lparr>pdf_id = pdfs_seq d, title = parse_name env (originalname f), cluster = 5,
                 url = file_path f, is_private = (form_private req = Some ''on''),
                 uploader = user, confidence = 1.0\<rparr>])"
proof -
  have range: "0 \<le> fst (clamp cc) \<and> fst (clamp cc) \<le> 5 \<and> 0.1 \<le> snd (clamp cc) \<and> snd (clamp cc) \<le> 1.0"
    by (simp add: clamp_def)
  have ident: "0 \<le> c \<and> c \<le> 5 \<and> 0.1 \<le> k \<and> k \<le> 1.0 \<longrightarrow> clamp (c, k) = (c, k)"
    by (simp add: clamp_def)
  have idem: "clamp (clamp cc) = clamp cc"
    by (simp add: clamp_def)
  have scenario: "pdfs (fst (upload env d user req)) =
      pdfs d @ [\<lparr>pdf_id = pdfs_seq d, title = parse_name env (originalname f), cluster = 5,
                 url = file_path f, is_private = (form_private req = Some ''on''),
                 uploader = user, confidence = 1.0\<rparr>]"
    if h: "req_file req = Some f" "file_path f \<noteq> ''''" "storage_fetch env = HttpResponse ok buf"
      "insert_pdf_ok env" "insert_upload_history_ok env"
      and c: "classifier env = ClassifierResponse 200
        (JsonObject \<lparr>ml_success = s, ml_cluster = Some 9, ml_confidence = Some 1.4\<rparr>)"
  proof -
    have "clamp (prediction (call_ml_api (classifier env))) = (5, 1)"
      by (simp add: c response_ok_def prediction_def js_or_def clamp_def)
    then show ?thesis
      by (simp add: upload_main_path [OF h] Let_def)
  qed
  from range ident idem scenario show ?thesis by blast
qed

theorem clamp_range_identity_idempotent_witness:
  "clamp (3, 0.6) = (3, 0.6) \<and>
   clamp (clamp (-4, 0)) = clamp (-4, 0) \<and> clamp (-4, 0) = (0, 0.1) \<and>
   pdfs (fst (upload
      \<lparr>parse_name = (\<lambda>n. n), storage_fetch = HttpResponse True [37, 80, 68, 70],
        classifier = ClassifierResponse 200
          (JsonObject \<lparr>ml_success = None, ml_cluster = Some 9, ml_confidence = Some 1.4\<rparr>),
        insert_pdf_ok = True, insert_upload_history_ok = True, fallback_insert_ok = True\<rparr>
      \<lparr>pdfs = [], pdfs_seq = 1, download_requests = [], download_requests_seq = 1,
        download_history = [], favorites = [], recently_viewed = [], upload_history = []\<rparr>
      ''admin''
      \<lparr>form_private = None,
        req_file = Some \<lparr>file_path = ''https://cdn/theses/a'', originalname = ''thesis''\<rparr>\<rparr>)) =
     [\<lparr>pdf_id = 1, title = ''thesis'', cluster = 5, url = ''https://cdn/theses/a'',
       is_private = False, uploader = ''admin'', confidence = 1\<rparr>]"
  using clamp_range_identity_idempotent
    [of "(-4, 0)" 3 "0.6"
      "\<lparr>form_private = None,
        req_file = Some \<lparr>file_path = ''https://cdn/theses/a'', originalname = ''thesis''\<rparr>\<rparr>"
      "\<lparr>file_path = ''https://cdn/theses/a'', originalname = ''thesis''\<rparr>"
      "\<lparr>parse_name = (\<lambda>n. n), storage_fetch = HttpResponse True [37, 80, 68, 70],
        classifier = ClassifierResponse 200
          (JsonObject \<lparr>ml_success = None, ml_cluster = Some 9, ml_confidence = Some 1.4\<rparr>),
        insert_pdf_ok = True, insert_upload_history_ok = True, fallback_insert_ok = True\<rparr>"
      True "[37, 80, 68, 70]" None
      "\<lparr>pdfs = [], pdfs_seq = 1, download_requests = [], download_requests_seq = 1,
        download_history = [], favorites = [], recently_viewed = [], upload_history = []\<rparr>"
      "''admin''"]
  by (simp add: clamp_def)





section \<open>Properties of the download gate\<close>

lemma gate_rows_product:
  "gate_rows d i user =
     concat (map (\<lambda>dr. map (Pair dr) (filter (\<lambda>p. pdf_id p = i) (pdfs d)))
       (filter (\<lambda>r. dr_pdf_id r = i \<and> dr_username r = user \<and> dr_status r = Some ''accepted'')
          (download_requests d)))"
proof -
  have inner: "concat (map (\<lambda>p. if pdf_id p = k then (if c then [(dr, p)] else []) else []) ps) =
      (if c then map (Pair dr) (filter (\<lambda>p. pdf_id p = k) ps) else [])"
    for k c and dr :: download_request and ps :: "pdf list"
    by (induction ps) auto
  have outer: "concat (map (\<lambda>dr. if dr_pdf_id dr = i \<and> c dr
                  then map (Pair dr) (filter (\<lambda>p. pdf_id p = dr_pdf_id dr) ps) else []) rs) =
      concat (map (\<lambda>dr. map (Pair dr) (filter (\<lambda>p. pdf_id p = i) ps))
        (filter (\<lambda>r. dr_pdf_id r = i \<and> c r) rs))"
    for c ps and rs :: "download_request list"
    by (induction rs) auto
  show ?thesis
    unfolding gate_rows_def inner
    by (rule outer)
qed

lemma set_gate_rows:
  "set (gate_rows d i user) =
     {(dr, p). dr \<in> set (download_requests d) \<and> p \<in> set (pdfs d) \<and> pdf_id p = i \<and>
        dr_pdf_id dr = i \<and> dr_username dr = user \<and> dr_status dr = Some ''accepted''}"
  by (auto simp: gate_rows_product)


lemma find_filter_hd:
  "find P xs = (case filter P xs of [] \<Rightarrow> None | x # _ \<Rightarrow> Some x)"
  by (induction xs) auto

lemma gate_rows_Cons:
  assumes "gate_rows d i user = row # rest"
  shows "find (\<lambda>p. pdf_id p = i) (pdfs d) = Some (snd row)"
proof -
  let ?ps = "filter (\<lambda>p. pdf_id p = i) (pdfs d)"
  have hd_block: "concat (map (\<lambda>dr. map (Pair dr) ps) rs) = x # xs \<Longrightarrow> ps \<noteq> [] \<and> snd x = hd ps"
    for ps :: "pdf list" and rs :: "download_request list" and x xs
    by (induction rs; cases ps) auto
  from assms have "?ps \<noteq> [] \<and> snd row = hd ?ps"
    unfolding gate_rows_product by (rule hd_block)
  then show ?thesis
    by (cases ?ps) (auto simp: find_filter_hd)
qed

lemma gate_rows_nonempty:
  assumes "has_accepted d user i" and "find (\<lambda>p. pdf_id p = i) (pdfs d) = Some p"
  shows "\<exists>dr rest. gate_rows d i user = (dr, p) # rest"
proof -
  from assms(2) have "p \<in> set (pdfs d)" "pdf_id p = i"
    by (auto simp: find_Some_iff)
  with assms(1) have "set (gate_rows d i user) \<noteq> {}"
    unfolding set_gate_rows by (auto simp: has_accepted_def list_ex_iff)
  then obtain row rest where c: "gate_rows d i user = row # rest"
    by (cases "gate_rows d i user") auto
  from gate_rows_Cons [OF c] assms(2) have "snd row = p" by simp
  with c show ?thesis by (cases row) auto
qed

lemma download_denied:
  "gate_rows d i user = [] \<Longrightarrow> download env d user now i = (d, SendText ''Not allowed'')"
  by (simp add: download_def)

lemma download_granted:
  assumes "gate_rows d i user = (dr, p) # rest"
  shows "download env d user now i =
     (if \<not> insert_download_history_ok env then (d, SendText ''Download failed'')
      else (d\<lparr>download_history := download_history d @
                [\<lparr>dh_pdf_id = i, dh_username = user, dh_downloaded_at = now\<rparr>]\<rparr>,
            case fetch env (url p) of
              NetworkError \<Rightarrow> SendText ''Download failed''
            | HttpResponse ok buffer \<Rightarrow>
                if \<not> ok then SendText ''Failed to fetch file''
                else if header_value_ok (content_disposition (title p))
                then SendFile (content_disposition (title p)) ''application/pdf'' buffer
                else SendText ''Download failed''))"
  using assms by (simp add: download_def Let_def split: fetch_outcome.splits)




lemma fk_ok_sample_db: "fk_ok sample_db"
  by (simp add: fk_ok_def sample_db_def pdf_exists_def sample_pdf_def)

lemma header_value_ok_sample: "header_value_ok (content_disposition ''Thesis'')"
  by (simp add: header_value_ok_def header_char_ok_def content_disposition_def)



text \<open>
  C6, as the code has it: for a pair with an accepted request the handler first appends
  the DownloadHistory record, then fetches the binary by the document's locator, and
  then, when the fetch has succeeded and the Content-Disposition line built from the
  title is a valid header value, answers with the binary, the suggested filename
  '<title>.pdf', content type application/pdf and disposition attachment. The record
  is appended whatever the fetch yields; a fetch that throws ends in
  'Download failed', one with an error status in 'Failed to fetch file'.
\<close>

theorem history_precedes_fetch:
  assumes "has_accepted d user i" and "find (\<lambda>p. pdf_id p = i) (pdfs d) = Some p"
    and "insert_download_history_ok env"
  shows "fst (download env d user now i) =
           d\<lparr>download_history := download_history d @
               [\<lparr>dh_pdf_id = i, dh_username = user, dh_downloaded_at = now\<rparr>]\<rparr> \<and>
         (fetch env (url p) = NetworkError \<longrightarrow>
            snd (download env d user now i) = SendText ''Download failed'') \<and>
         (fetch env (url p) = HttpResponse False buf \<longrightarrow>
            snd (download env d user now i) = SendText ''Failed to fetch file'') \<and>
         (fetch env (url p) = HttpResponse True buf \<and>
          header_value_ok (''attachment; filename='' @ [CHR 0x22] @ title p @ ''.pdf'' @ [CHR 0x22]) \<longrightarrow>
            snd (download env d user now i) =
              SendFile (''attachment; filename='' @ [CHR 0x22] @ title p @ ''.pdf'' @ [CHR 0x22])
                ''application/pdf'' buf)"
proof -
  from gate_rows_nonempty [OF assms(1,2)] obtain dr rest
    where "gate_rows d i user = (dr, p) # rest" by blast
  from download_granted [OF this] assms(3) show ?thesis
    by (simp add: content_disposition_def)
qed

theorem history_precedes_fetch_witness:
  "has_accepted sample_db ''ann'' 42 \<and>
   find (\<lambda>p. pdf_id p = 42) (pdfs sample_db) = Some sample_pdf \<and>
   insert_download_history_ok storage_up \<and>
   download storage_up sample_db ''ann'' 5 42 =
     (sample_db\<lparr>download_history :=
        [\<lparr>dh_pdf_id = 42, dh_username = ''ann'', dh_downloaded_at = 5\<rparr>]\<rparr>,
      SendFile (''attachment; filename='' @ [CHR 0x22] @ ''Thesis.pdf'' @ [CHR 0x22])
        ''application/pdf'' [37, 80, 68, 70]) \<and>
   download storage_down sample_db ''ann'' 5 42 =
     (sample_db\<lparr>download_history :=
        [\<lparr>dh_pdf_id = 42, dh_username = ''ann'', dh_downloaded_at = 5\<rparr>]\<rparr>,
      SendText ''Failed to fetch file'')"
proof -
  have ann: "has_accepted sample_db ''ann'' 42"
    by (simp add: has_accepted_def sample_db_def)
  have p: "find (\<lambda>p. pdf_id p = 42) (pdfs sample_db) = Some sample_pdf"
    by (simp add: sample_db_def sample_pdf_def)
  have up: "insert_download_history_ok storage_up"
    "fetch storage_up (url sample_pdf) = HttpResponse True [37, 80, 68, 70]"
    by (simp_all add: storage_up_def)
  have down: "insert_download_history_ok storage_down"
    "fetch storage_down (url sample_pdf) = HttpResponse False []"
    by (simp_all add: storage_down_def)
  have facts: "download_history sample_db = []" "title sample_pdf = ''Thesis''"
    by (simp_all add: sample_db_def sample_pdf_def)
  have hdr: "header_value_ok (''attachment; filename='' @ [CHR 0x22] @ title sample_pdf @ ''.pdf'' @ [CHR 0x22])"
    using header_value_ok_sample by (simp add: content_disposition_def sample_pdf_def)
  from history_precedes_fetch [OF ann p up(1), where now = 5 and buf = "[37, 80, 68, 70]"] up(2) hdr facts
  have "download storage_up sample_db ''ann'' 5 42 =
     (sample_db\<lparr>download_history :=
        [\<lparr>dh_pdf_id = 42, dh_username = ''ann'', dh_downloaded_at = 5\<rparr>]\<rparr>,
      SendFile (''attachment; filename='' @ [CHR 0x22] @ ''Thesis.pdf'' @ [CHR 0x22])
        ''application/pdf'' [37, 80, 68, 70])"
    by (simp add: prod_eq_iff)
  moreover from history_precedes_fetch [OF ann p down(1), where now = 5 and buf = "[]"] down(2) facts
  have "download storage_down sample_db ''ann'' 5 42 =
     (sample_db\<lparr>download_history :=
        [\<lparr>dh_pdf_id = 42, dh_username = ''ann'', dh_downloaded_at = 5\<rparr>]\<rparr>,
      SendText ''Failed to fetch file'')"
    by (simp add: prod_eq_iff)
  ultimately show ?thesis using ann p up(1) by simp
qed

text \<open>
  C6 as stated fails: with object storage answering with an error status, the download
  of ann's accepted document reports the failed fetch and has appended a
  DownloadHistory record all the same.
\<close>

theorem history_appended_though_fetch_failed:
  "has_accepted sample_db ''ann'' 42 \<and>
   download_history sample_db = [] \<and>
   snd (download storage_down sample_db ''ann'' 5 42) = SendText ''Failed to fetch file'' \<and>
   download_history (fst (download storage_down sample_db ''ann'' 5 42)) =
     [\<lparr>dh_pdf_id = 42, dh_username = ''ann'', dh_downloaded_at = 5\<rparr>]"
  by (simp add: has_accepted_def sample_db_def sample_pdf_def storage_down_def download_def
      gate_rows_def Let_def)

section \<open>The request-status query\<close>

lemma order_by_requested_at_desc_hd:
  assumes "rs \<noteq> []"
  shows "\<exists>r rest. order_by_requested_at_desc rs = r # rest \<and> r \<in> set rs \<and>
           (\<forall>r'\<in>set rs. dr_requested_at r' \<le> dr_requested_at r)"
proof -
  let ?xs = "order_by_requested_at_desc rs"
  have set_eq: "set ?xs = set rs"
    by (simp add: order_by_requested_at_desc_def)
  have desc: "sorted_wrt (\<lambda>a b. dr_requested_at b \<le> dr_requested_at a) ?xs"
    using sorted_sort_key [of dr_requested_at rs]
    by (simp add: order_by_requested_at_desc_def sorted_wrt_rev sorted_map)
  from assms set_eq obtain r rest where c: "?xs = r # rest"
    by (cases ?xs) auto
  from desc have "\<forall>r'\<in>set (r # rest). dr_requested_at r' \<le> dr_requested_at r"
    unfolding c by auto
  with c set_eq show ?thesis
    by (metis list.set_intros(1))
qed

text \<open>
  C7: the request-status query answers with the status of a most recently requested
  row of the (requester, document) pair, one whose requested timestamp no other row of
  the pair exceeds, and with status null when the pair has no row.
\<close>

theorem request_status_latest:
  "(\<not> list_ex (\<lambda>r. dr_pdf_id r = i \<and> dr_username r = user) (download_requests d) \<longrightarrow>
      request_status d user i = StatusJson None) \<and>
   (list_ex (\<lambda>r. dr_pdf_id r = i \<and> dr_username r = user) (download_requests d) \<longrightarrow>
      (\<exists>r\<in>set (download_requests d).
         dr_pdf_id r = i \<and> dr_username r = user \<and>
         (\<forall>r'\<in>set (download_requests d).
            dr_pdf_id r' = i \<and> dr_username r' = user \<longrightarrow> dr_requested_at r' \<le> dr_requested_at r) \<and>
         request_status d user i = StatusJson (dr_status r)))"
proof -
  let ?rs = "filter (\<lambda>r. dr_pdf_id r = i \<and> dr_username r = user) (download_requests d)"
  show ?thesis
  proof (cases "?rs = []")
    case True
    then have "request_status d user i = StatusJson None"
      by (simp add: request_status_def latest_request_def order_by_requested_at_desc_def)
    moreover from True have "\<not> list_ex (\<lambda>r. dr_pdf_id r = i \<and> dr_username r = user) (download_requests d)"
      by (simp add: list_ex_iff filter_empty_conv)
    ultimately show ?thesis by simp
  next
    case False
    from order_by_requested_at_desc_hd [OF this] obtain r rest
      where c: "order_by_requested_at_desc ?rs = r # rest" and r: "r \<in> set ?rs"
        and top: "\<forall>r'\<in>set ?rs. dr_requested_at r' \<le> dr_requested_at r"
      by blast
    from c have "request_status d user i = StatusJson (dr_status r)"
      by (simp add: request_status_def latest_request_def)
    with r top have "\<exists>r\<in>set (download_requests d).
         dr_pdf_id r = i \<and> dr_username r = user \<and>
         (\<forall>r'\<in>set (download_requests d).
            dr_pdf_id r' = i \<and> dr_username r' = user \<longrightarrow> dr_requested_at r' \<le> dr_requested_at r) \<and>
         request_status d user i = StatusJson (dr_status r)"
      by auto
    moreover from False have "list_ex (\<lambda>r. dr_pdf_id r = i \<and> dr_username r = user) (download_requests d)"
      by (simp add: list_ex_iff filter_empty_conv)
    ultimately show ?thesis by simp
  qed
qed

theorem request_status_latest_witness:
  "request_status sample_db ''ann'' 42 = StatusJson (Some ''rejected'') \<and>
   request_status sample_db ''bob'' 42 = StatusJson None"
proof -
  have ann: "list_ex (\<lambda>r. dr_pdf_id r = 42 \<and> dr_username r = ''ann'') (download_requests sample_db)"
    by (simp add: sample_db_def)
  have bob: "\<not> list_ex (\<lambda>r. dr_pdf_id r = 42 \<and> dr_username r = ''bob'') (download_requests sample_db)"
    by (simp add: sample_db_def)
  from request_status_latest [of 42 "''ann''" sample_db] ann
  obtain r where r: "r \<in> set (download_requests sample_db)"
    and top: "\<forall>r'\<in>set (download_requests sample_db).
        dr_pdf_id r' = 42 \<and> dr_username r' = ''ann'' \<longrightarrow> dr_requested_at r' \<le> dr_requested_at r"
    and st: "request_status sample_db ''ann'' 42 = StatusJson (dr_status r)"
    by blast
  from r top have "dr_status r = Some ''rejected''"
    by (auto simp: sample_db_def)
  with st have "request_status sample_db ''ann'' 42 = StatusJson (Some ''rejected'')" by simp
  moreover from request_status_latest [of 42 "''bob''" sample_db] bob
  have "request_status sample_db ''bob'' 42 = StatusJson None" by blast
  ultimately show ?thesis by simp
qed

section \<open>Absent identifiers\<close>

lemma gate_rows_no_pdf: "\<not> pdf_exists d i \<Longrightarrow> gate_rows d i user = []"
proof -
  assume "\<not> pdf_exists d i"
  then have "set (gate_rows d i user) = {}"
    unfolding set_gate_rows by (auto simp: pdf_exists_def list_ex_iff)
  then show ?thesis by simp
qed






section \<open>Deleting a document\<close>

text \<open>
  C9: in a store that respects its foreign keys, deleting a document removes the
  DownloadRequest, Favorite, DownloadHistory and ViewHistory rows that reference it and
  no others, and afterwards the download gate answers 'Not allowed' for that document
  id, for every user.
\<close>

theorem delete_cascade_complete:
  assumes "fk_ok d"
  shows "set (download_requests (fst (delete_handler d i))) =
           {r \<in> set (download_requests d). dr_pdf_id r \<noteq> i} \<and>
         set (favorites (fst (delete_handler d i))) =
           {f \<in> set (favorites d). fav_pdf_id f \<noteq> i} \<and>
         set (download_history (fst (delete_handler d i))) =
           {h \<in> set (download_history d). dh_pdf_id h \<noteq> i} \<and>
         set (recently_viewed (fst (delete_handler d i))) =
           {v \<in> set (recently_viewed d). rv_pdf_id v \<noteq> i} \<and>
         \<not> pdf_exists (fst (delete_handler d i)) i \<and>
         download env (fst (delete_handler d i)) user now i =
           (fst (delete_handler d i), SendText ''Not allowed'')"
proof (cases "pdf_exists d i")
  case True
  then have gone: "\<not> pdf_exists (delete_pdf d i) i"
    by (simp add: delete_pdf_def pdf_exists_def list_ex_iff)
  from True have "set (download_requests (delete_pdf d i)) = {r \<in> set (download_requests d). dr_pdf_id r \<noteq> i}"
    "set (favorites (delete_pdf d i)) = {f \<in> set (favorites d). fav_pdf_id f \<noteq> i}"
    "set (download_history (delete_pdf d i)) = {h \<in> set (download_history d). dh_pdf_id h \<noteq> i}"
    "set (recently_viewed (delete_pdf d i)) = {v \<in> set (recently_viewed d). rv_pdf_id v \<noteq> i}"
    by (auto simp: delete_pdf_def)
  with gone show ?thesis
    by (simp add: delete_handler_def gate_rows_no_pdf download_denied)
next
  case False
  then have same: "delete_pdf d i = d"
    by (simp add: delete_pdf_def)
  from False assms have "{r \<in> set (download_requests d). dr_pdf_id r \<noteq> i} = set (download_requests d)"
    "{f \<in> set (favorites d). fav_pdf_id f \<noteq> i} = set (favorites d)"
    "{h \<in> set (download_history d). dh_pdf_id h \<noteq> i} = set (download_history d)"
    "{v \<in> set (recently_viewed d). rv_pdf_id v \<noteq> i} = set (recently_viewed d)"
    by (auto simp: fk_ok_def list_all_iff)
  with False show ?thesis
    by (simp add: delete_handler_def same gate_rows_no_pdf download_denied)
qed

theorem delete_cascade_complete_witness:
  "fk_ok sample_db \<and>
   has_accepted sample_db ''ann'' 42 \<and>
   download_requests (fst (delete_handler sample_db 42)) = [] \<and>
   download storage_up (fst (delete_handler sample_db 42)) ''ann'' 5 42 =
     (fst (delete_handler sample_db 42), SendText ''Not allowed'')"
proof -
  have ann: "has_accepted sample_db ''ann'' 42"
    by (simp add: has_accepted_def sample_db_def)
  have "{r \<in> set (download_requests sample_db). dr_pdf_id r \<noteq> 42} = {}"
    by (auto simp: sample_db_def)
  with delete_cascade_complete [OF fk_ok_sample_db, of 42 storage_up "''ann''" 5] ann fk_ok_sample_db
  show ?thesis by simp
qed

section \<open>Admin decisions\<close>

text \<open>
  C10: an admin decision on request id n leaves every table but the DownloadRequest
  table as it was, keeps every DownloadRequest row whose id is not n as it was, and
  keeps the id, document, requester and requested timestamp of every row: only the
  status and the responded timestamp of a row with id n can change.
\<close>

theorem decision_frame:
  assumes "d' = fst (download_action d now action n)"
  shows "pdfs d' = pdfs d \<and> pdfs_seq d' = pdfs_seq d \<and>
         download_requests_seq d' = download_requests_seq d \<and>
         download_history d' = download_history d \<and> favorites d' = favorites d \<and>
         recently_viewed d' = recently_viewed d \<and> upload_history d' = upload_history d \<and>
         length (download_requests d') = length (download_requests d) \<and>
         (\<forall>k<length (download_requests d).
            dr_id (download_requests d' ! k) = dr_id (download_requests d ! k) \<and>
            dr_pdf_id (download_requests d' ! k) = dr_pdf_id (download_requests d ! k) \<and>
            dr_username (download_requests d' ! k) = dr_username (download_requests d ! k) \<and>
            dr_requested_at (download_requests d' ! k) = dr_requested_at (download_requests d ! k) \<and>
            (dr_id (download_requests d ! k) \<noteq> n \<longrightarrow>
               download_requests d' ! k = download_requests d ! k))"
proof -
  let ?decide = "\<lambda>r. if dr_id r = n then r\<lparr>dr_status := action, dr_responded_at := Some now\<rparr> else r"
  have d': "d' = d\<lparr>download_requests := map ?decide (download_requests d)\<rparr>"
    using assms by (simp add: download_action_def)
  have others: "pdfs d' = pdfs d \<and> pdfs_seq d' = pdfs_seq d \<and>
         download_requests_seq d' = download_requests_seq d \<and>
         download_history d' = download_history d \<and> favorites d' = favorites d \<and>
         recently_viewed d' = recently_viewed d \<and> upload_history d' = upload_history d \<and>
         length (download_requests d') = length (download_requests d)"
    by (simp add: d')
  have rows: "dr_id (download_requests d' ! k) = dr_id (download_requests d ! k) \<and>
            dr_pdf_id (download_requests d' ! k) = dr_pdf_id (download_requests d ! k) \<and>
            dr_username (download_requests d' ! k) = dr_username (download_requests d ! k) \<and>
            dr_requested_at (download_requests d' ! k) = dr_requested_at (download_requests d ! k) \<and>
            (dr_id (download_requests d ! k) \<noteq> n \<longrightarrow>
               download_requests d' ! k = download_requests d ! k)"
    if "k < length (download_requests d)" for k
  proof -
    from that have "download_requests d' ! k = ?decide (download_requests d ! k)"
      by (simp add: d')
    then show ?thesis
      by (cases "dr_id (download_requests d ! k) = n") simp_all
  qed
  from others rows show ?thesis by blast
qed

theorem decision_frame_witness:
  "download_requests (fst (download_action sample_db 9 (Some ''accepted'') 8)) ! 0 =
     download_requests sample_db ! 0 \<and>
   dr_username (download_requests (fst (download_action sample_db 9 (Some ''accepted'') 8)) ! 1) = ''ann'' \<and>
   pdfs (fst (download_action sample_db 9 (Some ''accepted'') 8)) = [sample_pdf]"
proof -
  have "length (download_requests sample_db) = 2"
    "dr_id (download_requests sample_db ! 0) \<noteq> 8"
    "dr_username (download_requests sample_db ! 1) = ''ann''"
    "pdfs sample_db = [sample_pdf]"
    by (simp_all add: sample_db_def)
  with decision_frame [OF refl, of sample_db 9 "Some ''accepted''" 8]
  show ?thesis by simp
qed







section \<open>Failed writes of an upload\<close>

lemma upload_write_failure:
  assumes "req_file req = Some f" and "file_path f \<noteq> ''''"
    and "storage_fetch env = HttpResponse ok buf"
    and "\<not> insert_pdf_ok env \<or> \<not> insert_upload_history_ok env"
  shows "upload env d user req =
     (if \<not> insert_pdf_ok env then upload_catch env d user req
      else upload_catch env
             (insert_pdf d (parse_name env (originalname f))
                (fst (clamp (prediction (call_ml_api (classifier env))))) (file_path f)
                (form_private req = Some ''on'') user
                (snd (clamp (prediction (call_ml_api (classifier env))))))
             user req)"
  using assms by (auto simp: upload_def Let_def case_prod_beta)

lemma upload_catch_result:
  assumes "req_file req = Some f"
  shows "upload_catch env d user req =
     (if fallback_insert_ok env then
        (insert_pdf d (parse_name env (originalname f)) 0 (file_path f)
           (form_private req = Some ''on'') user 0.5,
         UploadSuccess \<lparr>uj_title = parse_name env (originalname f), uj_cluster = 0,
           uj_cluster_name = ''BSCS'', uj_confidence = 0.5, uj_api_used = False,
           uj_fallback = Some True\<rparr>)
      else (d, UploadFailure ''Upload failed completely''))"
  using assms by (simp add: upload_catch_def Let_def)

lemma upload_history_insert_pdf [simp]:
  "upload_history (insert_pdf d t c u p who conf) = upload_history d"
  by (simp add: insert_pdf_def)

text \<open>
  C3, as the code has it: when, after classification, the insert of the Document row
  or of the UploadHistory row fails, the handler inserts a Document row with the
  default category 0 and confidence 0.5; it answers with success (flagged as fallback)
  when that insert succeeds and with 'Upload failed completely' when it fails too. No
  UploadHistory row is written.
\<close>

theorem upload_retry_on_write_failure:
  assumes "req_file req = Some f" and "file_path f \<noteq> ''''"
    and "storage_fetch env = HttpResponse ok buf"
    and "\<not> insert_pdf_ok env \<or> \<not> insert_upload_history_ok env"
  shows "snd (upload env d user req) =
           (if fallback_insert_ok env then
              UploadSuccess \<lparr>uj_title = parse_name env (originalname f), uj_cluster = 0,
                uj_cluster_name = ''BSCS'', uj_confidence = 0.5, uj_api_used = False,
                uj_fallback = Some True\<rparr>
            else UploadFailure ''Upload failed completely'') \<and>
         (fallback_insert_ok env \<longrightarrow>
            title (last (pdfs (fst (upload env d user req)))) = parse_name env (originalname f) \<and>
            cluster (last (pdfs (fst (upload env d user req)))) = 0 \<and>
            confidence (last (pdfs (fst (upload env d user req)))) = 0.5 \<and>
            url (last (pdfs (fst (upload env d user req)))) = file_path f) \<and>
         upload_history (fst (upload env d user req)) = upload_history d"
proof (cases "insert_pdf_ok env")
  case False
  then show ?thesis
    by (simp add: upload_write_failure [OF assms] upload_catch_result [OF assms(1)])
next
  case True
  then show ?thesis
    by (simp add: upload_write_failure [OF assms] upload_catch_result [OF assms(1)])
qed

theorem upload_retry_on_write_failure_witness:
  "upload writes_failing sample_db ''admin'' sample_upload =
     (sample_db\<lparr>pdfs := [sample_pdf,
          \<lparr>pdf_id = 43, title = ''thesis'', cluster = 0, url = ''https://cdn/theses/a'',
           is_private = False, uploader = ''admin'', confidence = 0.5\<rparr>],
        pdfs_seq := 44\<rparr>,
      UploadSuccess \<lparr>uj_title = ''thesis'', uj_cluster = 0, uj_cluster_name = ''BSCS'',
        uj_confidence = 0.5, uj_api_used = False, uj_fallback = Some True\<rparr>) \<and>
   snd (upload (writes_failing\<lparr>fallback_insert_ok := False\<rparr>) sample_db ''admin'' sample_upload) =
     UploadFailure ''Upload failed completely''"
proof -
  let ?f = "\<lparr>file_path = ''https://cdn/theses/a'', originalname = ''thesis''\<rparr>"
  have f: "req_file sample_upload = Some ?f" "file_path ?f \<noteq> ''''"
    by (simp_all add: sample_upload_def)
  have env: "storage_fetch writes_failing = HttpResponse True [37, 80, 68, 70]"
    "\<not> insert_pdf_ok writes_failing \<or> \<not> insert_upload_history_ok writes_failing"
    "fallback_insert_ok writes_failing" "parse_name writes_failing = (\<lambda>n. n)"
    by (simp_all add: writes_failing_def)
  have env': "storage_fetch (writes_failing\<lparr>fallback_insert_ok := False\<rparr>) = HttpResponse True [37, 80, 68, 70]"
    "\<not> insert_pdf_ok (writes_failing\<lparr>fallback_insert_ok := False\<rparr>) \<or>
     \<not> insert_upload_history_ok (writes_failing\<lparr>fallback_insert_ok := False\<rparr>)"
    by (simp_all add: writes_failing_def)
  have "snd (upload writes_failing sample_db ''admin'' sample_upload) =
      UploadSuccess \<lparr>uj_title = ''thesis'', uj_cluster = 0, uj_cluster_name = ''BSCS'',
        uj_confidence = 0.5, uj_api_used = False, uj_fallback = Some True\<rparr>"
    using upload_retry_on_write_failure [OF f env(1,2), of sample_db "''admin''"] env(3,4)
    by simp
  moreover have "fst (upload writes_failing sample_db ''admin'' sample_upload) =
      sample_db\<lparr>pdfs := [sample_pdf,
          \<lparr>pdf_id = 43, title = ''thesis'', cluster = 0, url = ''https://cdn/theses/a'',
           is_private = False, uploader = ''admin'', confidence = 0.5\<rparr>],
        pdfs_seq := 44\<rparr>"
    by (simp add: upload_def upload_catch_def insert_pdf_def writes_failing_def sample_upload_def
        sample_db_def Let_def)
  moreover have "snd (upload (writes_failing\<lparr>fallback_insert_ok := False\<rparr>) sample_db ''admin'' sample_upload) =
     UploadFailure ''Upload failed completely''"
    using upload_retry_on_write_failure [OF f env', of sample_db "''admin''"]
    by simp
  ultimately show ?thesis
    by (simp add: prod_eq_iff)
qed

text \<open>
  C3 as stated fails: with the Document insert failing, and likewise with the
  UploadHistory insert failing, the upload still answers with success once the
  insert of the \<^verbatim>\<open>catch\<close> block goes through.
\<close>

theorem upload_succeeds_after_failed_write:
  "\<not> insert_pdf_ok writes_failing \<and>
   snd (upload writes_failing sample_db ''admin'' sample_upload) =
     UploadSuccess \<lparr>uj_title = ''thesis'', uj_cluster = 0, uj_cluster_name = ''BSCS'',
       uj_confidence = 0.5, uj_api_used = False, uj_fallback = Some True\<rparr> \<and>
   \<not> insert_upload_history_ok (writes_failing\<lparr>insert_pdf_ok := True, insert_upload_history_ok := False\<rparr>) \<and>
   snd (upload (writes_failing\<lparr>insert_pdf_ok := True, insert_upload_history_ok := False\<rparr>)
          sample_db ''admin'' sample_upload) =
     UploadSuccess \<lparr>uj_title = ''thesis'', uj_cluster = 0, uj_cluster_name = ''BSCS'',
       uj_confidence = 0.5, uj_api_used = False, uj_fallback = Some True\<rparr>"
  by (simp add: upload_def upload_catch_def writes_failing_def sample_upload_def Let_def
      response_ok_def prediction_def js_or_def clamp_def)

section \<open>The foreign keys are kept\<close>

text \<open>
  Every handler takes a store that respects its foreign keys to one that does: the
  hypothesis \<open>fk_ok\<close> of the theorems above holds in the empty store and in
  every store the handlers reach from it.
\<close>

lemma fk_ok_empty_db: "fk_ok empty_db"
  by (simp add: fk_ok_def empty_db_def)

lemma fk_ok_iff:
  "fk_ok d =
     ((\<forall>r\<in>set (download_requests d). pdf_exists d (dr_pdf_id r)) \<and>
      (\<forall>h\<in>set (download_history d). pdf_exists d (dh_pdf_id h)) \<and>
      (\<forall>f\<in>set (favorites d). pdf_exists d (fav_pdf_id f)) \<and>
      (\<forall>v\<in>set (recently_viewed d). pdf_exists d (rv_pdf_id v)))"
  by (simp add: fk_ok_def list_all_iff)

lemma pdf_exists_same_pdfs: "pdfs d' = pdfs d \<Longrightarrow> pdf_exists d' i = pdf_exists d i"
  by (simp add: pdf_exists_def)

lemma fk_ok_request_download:
  assumes "fk_ok d"
  shows "fk_ok (fst (request_download d user now i))"
proof (cases "pdf_exists d i")
  case True
  let ?d' = "fst (request_download d user now i)"
  have ex: "pdf_exists ?d' j = pdf_exists d j" for j
    by (rule pdf_exists_same_pdfs) (simp add: request_download_def)
  from True have "set (download_requests ?d') \<subseteq> set (download_requests d) \<union> {r. dr_pdf_id r = i}"
    "download_history ?d' = download_history d" "favorites ?d' = favorites d"
    "recently_viewed ?d' = recently_viewed d"
    by (auto simp: request_download_def)
  with assms True show ?thesis
    unfolding fk_ok_iff ex by auto
next
  case False
  with assms show ?thesis by (simp add: request_download_def)
qed

lemma fk_ok_download_action:
  assumes "fk_ok d"
  shows "fk_ok (fst (download_action d now action n))"
proof -
  let ?d' = "fst (download_action d now action n)"
  have ex: "pdf_exists ?d' j = pdf_exists d j" for j
    by (rule pdf_exists_same_pdfs) (simp add: download_action_def)
  have "map dr_pdf_id (download_requests ?d') = map dr_pdf_id (download_requests d)"
    by (simp add: download_action_def comp_def if_distrib [of dr_pdf_id])
  then have "dr_pdf_id ` set (download_requests ?d') = dr_pdf_id ` set (download_requests d)"
    by (metis set_map)
  moreover have "download_history ?d' = download_history d" "favorites ?d' = favorites d"
    "recently_viewed ?d' = recently_viewed d"
    by (simp_all add: download_action_def)
  ultimately show ?thesis
    using assms unfolding fk_ok_iff ex by (simp add: ball_simps(9) [symmetric] del: ball_simps) 
qed

lemma delete_cascade_rows:
  assumes "pdf_exists d i"
  shows "set (download_requests (delete_pdf d i)) = {r \<in> set (download_requests d). dr_pdf_id r \<noteq> i}"
    and "set (favorites (delete_pdf d i)) = {f \<in> set (favorites d). fav_pdf_id f \<noteq> i}"
    and "set (download_history (delete_pdf d i)) = {h \<in> set (download_history d). dh_pdf_id h \<noteq> i}"
    and "set (recently_viewed (delete_pdf d i)) = {v \<in> set (recently_viewed d). rv_pdf_id v \<noteq> i}"
  using assms by (auto simp: delete_pdf_def)

lemma fk_ok_download:
  assumes "fk_ok d"
  shows "fk_ok (fst (download env d user now i))"
proof (cases "gate_rows d i user")
  case Nil
  with assms show ?thesis by (simp add: download_denied)
next
  case (Cons row rest)
  obtain dr p where row: "row = (dr, p)" by (cases row)
  from gate_rows_Cons [OF Cons] have ex_i: "pdf_exists d i"
    by (auto simp: find_Some_iff pdf_exists_def list_ex_iff)
  let ?d1 = "d\<lparr>download_history := download_history d @
                [\<lparr>dh_pdf_id = i, dh_username = user, dh_downloaded_at = now\<rparr>]\<rparr>"
  have ex: "pdf_exists ?d1 j = pdf_exists d j" for j
    by (rule pdf_exists_same_pdfs) simp
  from assms ex_i have "fk_ok ?d1"
    unfolding fk_ok_iff ex by auto
  with assms show ?thesis
    by (simp add: download_granted [OF Cons [unfolded row]])
qed

lemma fk_ok_view:
  assumes "fk_ok d"
  shows "fk_ok (fst (view insert_ok d user role now i))"
proof (cases "find (\<lambda>p. pdf_id p = i) (pdfs d)")
  case None
  with assms show ?thesis by (simp add: view_def)
next
  case (Some doc)
  then have ex_i: "pdf_exists d (pdf_id doc)"
    by (auto simp: find_Some_iff pdf_exists_def list_ex_iff)
  let ?d1 = "d\<lparr>recently_viewed := recently_viewed d @
                [\<lparr>rv_username = user, rv_pdf_id = pdf_id doc, rv_viewed_at = now\<rparr>]\<rparr>"
  have ex: "pdf_exists ?d1 j = pdf_exists d j" for j
    by (rule pdf_exists_same_pdfs) simp
  from assms ex_i have "fk_ok ?d1"
    unfolding fk_ok_iff ex by auto
  with assms Some show ?thesis
    by (simp add: view_def Let_def)
qed

lemma fk_ok_delete_handler:
  assumes "fk_ok d"
  shows "fk_ok (fst (delete_handler d i))"
proof (cases "pdf_exists d i")
  case False
  with assms show ?thesis by (simp add: delete_handler_def delete_pdf_def)
next
  case True
  have ex: "pdf_exists (delete_pdf d i) j = pdf_exists d j" if "j \<noteq> i" for j
    using True that by (auto simp: delete_pdf_def pdf_exists_def list_ex_iff)
  from delete_cascade_rows [OF True] assms show ?thesis
    unfolding fk_ok_iff delete_handler_def by (auto simp: ex)
qed

lemma fk_ok_insert_pdf:
  assumes "fk_ok d"
  shows "fk_ok (insert_pdf d t c u p who conf)"
proof -
  have ex: "pdf_exists d j \<Longrightarrow> pdf_exists (insert_pdf d t c u p who conf) j" for j
    by (simp add: pdf_exists_def list_ex_iff)
  have "download_requests (insert_pdf d t c u p who conf) = download_requests d"
    "download_history (insert_pdf d t c u p who conf) = download_history d"
    "favorites (insert_pdf d t c u p who conf) = favorites d"
    "recently_viewed (insert_pdf d t c u p who conf) = recently_viewed d"
    by (simp_all add: insert_pdf_def)
  with assms ex show ?thesis
    unfolding fk_ok_iff by auto
qed

lemma fk_ok_insert_upload_history:
  "fk_ok d \<Longrightarrow> fk_ok (insert_upload_history d t c who)"
  by (simp add: fk_ok_def insert_upload_history_def pdf_exists_def)

lemma fk_ok_upload_catch:
  "fk_ok d \<Longrightarrow> fk_ok (fst (upload_catch env d user req))"
  by (simp add: upload_catch_def Let_def fk_ok_insert_pdf)

lemma fk_ok_upload:
  assumes "fk_ok d"
  shows "fk_ok (fst (upload env d user req))"
  using assms
  by (simp add: upload_def Let_def case_prod_beta fk_ok_upload_catch fk_ok_insert_pdf
      fk_ok_insert_upload_history split: option.splits fetch_outcome.splits)

lemma fk_ok_routes:
  assumes "fk_ok d"
  shows "fk_ok (fst (get_download env d user now p))"
    and "fk_ok (fst (get_view insert_ok d user role now p))"
    and "fk_ok (fst (post_request_download d user now p))"
    and "fk_ok (fst (post_download_action d now action p))"
    and "fk_ok (fst (post_delete d p))"
  using assms
  by (simp_all add: get_download_def get_view_def post_request_download_def
      post_download_action_def post_delete_def fk_ok_download fk_ok_view fk_ok_request_download
      fk_ok_download_action fk_ok_delete_handler split: option.splits)

lemma store_reads_sint:
  "store_reads (Integer n) = Some i \<Longrightarrow> sint i = n"
  by (auto simp: store_reads_def sint_sbintrunc' signed_take_bit_int_eq_self split: if_splits)


end
